theory Spec2Isabelle
  imports Main
begin

section \<open>Data model\<close>

text \<open>
  The rows handled by \<^verbatim>\<open>app/visualization.py\<close> are the dictionaries built by
  \<^verbatim>\<open>DatabaseConnector.get_all_products\<close> and \<^verbatim>\<open>DatabaseConnector.get_sales_data\<close>:
  every product row has exactly the keys \<^verbatim>\<open>product_id\<close> and \<^verbatim>\<open>product_name\<close>, every
  sales row exactly the keys \<^verbatim>\<open>date\<close> and \<^verbatim>\<open>sales\<close>. They are records here, so a
  missing key (a \<^verbatim>\<open>KeyError\<close>) and a non-numeric \<^verbatim>\<open>sales\<close> value are excluded by the
  types. Amounts are integers: Python's \<^verbatim>\<open>+=\<close> on them never overflows.
\<close>

datatype calendar_date = Date int int int

record product =
  product_id :: int
  product_name :: string

record sales_row =
  row_date :: calendar_date
  row_sales :: int

text \<open>
  One entry of the dropdown, as the dictionary built at lines 90--97:
  \<^verbatim>\<open>dict(label=..., method='update', args=[{'x': [dates], 'y': [cumulative_sales]}, {'title': ...}])\<close>.
  The \<^verbatim>\<open>x\<close> and \<^verbatim>\<open>y\<close> payloads are lists holding one list each; the key
  \<^verbatim>\<open>method\<close> is the field \<open>button_method\<close>.
\<close>

record button =
  label :: string
  button_method :: string
  args_x :: "calendar_date list list"
  args_y :: "int list list"
  args_title :: string

text \<open>The single update menu set at lines 100--112 (its placement numbers are left out).\<close>

record updatemenu =
  buttons :: "button list"
  direction :: string
  showactive :: bool

text \<open>
  The Plotly figure: the one scatter trace added by \<^verbatim>\<open>create_sales_plot\<close> (its \<^verbatim>\<open>x\<close>,
  \<^verbatim>\<open>y\<close>, \<^verbatim>\<open>mode\<close> and \<^verbatim>\<open>name\<close>), the layout's titles, and the update menus.
\<close>

record figure =
  trace_x :: "calendar_date list"
  trace_y :: "int list"
  trace_mode :: string
  trace_name :: string
  layout_title :: string
  xaxis_title :: string
  yaxis_title :: string
  updatemenus :: "updatemenu list"

text \<open>
  What \<^verbatim>\<open>create_interactive_dashboard\<close> returns: either the literal paragraph of line 70
  or \<^verbatim>\<open>fig.to_html(include_plotlyjs='cdn', div_id='sales-plot')\<close>. Plotly's serialiser
  is outside the repository, so the markup of a figure is kept as the figure it renders.
\<close>

datatype html = Html_text string | Html_figure figure

text \<open>
  The database connector as the dashboard uses it: \<^verbatim>\<open>db_connector.get_sales_data(id)\<close> runs
  a query against a store of type \<open>'s\<close>, which it may change, and either raises (an error of
  type \<open>'e\<close>) or returns the rows.
\<close>

type_synonym ('s, 'e) connector = "int \<Rightarrow> 's \<Rightarrow> ('e + sales_row list) \<times> 's"

section \<open>The running total\<close>

text \<open>
  The loop of lines 27--31 (and, word for word, of lines 83--87):
  \<^verbatim>\<open>
  cumulative_sales = []
  running_total = 0
  for sale in sales:
      running_total += sale
      cumulative_sales.append(running_total)
  \<close>
  \<open>running_total_loop\<close> is the loop from any intermediate state, \<open>cumulative\<close> the loop from
  its initial state.
\<close>

fun running_total_loop :: "int list \<Rightarrow> int \<Rightarrow> int list \<Rightarrow> int list" where
  "running_total_loop [] running_total cumulative_sales = cumulative_sales"
| "running_total_loop (sale # sales) running_total cumulative_sales =
     running_total_loop sales (running_total + sale) (cumulative_sales @ [running_total + sale])"

definition cumulative :: "int list \<Rightarrow> int list" where
  "cumulative sales = running_total_loop sales 0 []"

section \<open>create_sales_plot\<close>

definition create_sales_plot :: "sales_row list \<Rightarrow> string \<Rightarrow> figure" where
  "create_sales_plot sales_data product_name' =
     (let dates = map row_date sales_data;
          sales = map row_sales sales_data;
          cumulative_sales = cumulative sales
      in \<lparr> trace_x = dates,
           trace_y = cumulative_sales,
           trace_mode = ''lines+markers'',
           trace_name = ''Cumulative Sales'',
           layout_title = ''Cumulative Sales Over Time - '' @ product_name',
           xaxis_title = ''Date'',
           yaxis_title = ''Cumulative Sales ($)'',
           updatemenus = [] \<rparr>)"

section \<open>create_interactive_dashboard\<close>

text \<open>The dictionary appended to \<^verbatim>\<open>buttons\<close> for one product (lines 79--98).\<close>

definition dropdown_button :: "product \<Rightarrow> sales_row list \<Rightarrow> button" where
  "dropdown_button product' product_sales =
     (let dates = map row_date product_sales;
          sales = map row_sales product_sales;
          cumulative_sales = cumulative sales
      in \<lparr> label = product_name product',
           button_method = ''update'',
           args_x = [dates],
           args_y = [cumulative_sales],
           args_title = ''Cumulative Sales Over Time - '' @ product_name product' \<rparr>)"

text \<open>
  The loop of lines 77--98 over the products still to visit, with the buttons built so far.
  An exception of \<^verbatim>\<open>get_sales_data\<close> is not caught, so it leaves the loop at once.
\<close>

fun dropdown_loop ::
  "('s, 'e) connector \<Rightarrow> product list \<Rightarrow> button list \<Rightarrow> 's \<Rightarrow> ('e + button list) \<times> 's" where
  "dropdown_loop get_sales_data [] btns s = (Inr btns, s)"
| "dropdown_loop get_sales_data (p # ps) btns s =
     (case get_sales_data (product_id p) s of
        (Inl e, s') \<Rightarrow> (Inl e, s')
      | (Inr product_sales, s') \<Rightarrow>
          dropdown_loop get_sales_data ps (btns @ [dropdown_button p product_sales]) s')"

definition create_interactive_dashboard ::
  "product list \<Rightarrow> ('s, 'e) connector \<Rightarrow> 's \<Rightarrow> ('e + html) \<times> 's" where
  "create_interactive_dashboard products get_sales_data s =
     (case products of
        [] \<Rightarrow> (Inr (Html_text ''<p>No products available</p>''), s)
      | first_product # _ \<Rightarrow>
          (case get_sales_data (product_id first_product) s of
             (Inl e, s1) \<Rightarrow> (Inl e, s1)
           | (Inr sales_data, s1) \<Rightarrow>
               (let fig = create_sales_plot sales_data (product_name first_product)
                in case dropdown_loop get_sales_data products [] s1 of
                     (Inl e, s2) \<Rightarrow> (Inl e, s2)
                   | (Inr btns, s2) \<Rightarrow>
                       (Inr (Html_figure
                              (fig\<lparr>updatemenus :=
                                    [\<lparr> buttons = btns, direction = ''down'', showactive = True \<rparr>]\<rparr>)),
                        s2))))"

section \<open>Observing a dashboard\<close>

text \<open>
  What a page shows at load time (the trace of its figure) and the entries of its dropdown.
  The paragraph returned for an empty catalogue has neither a chart nor a dropdown.
\<close>

fun visible_dates :: "html \<Rightarrow> calendar_date list" where
  "visible_dates (Html_text t) = []"
| "visible_dates (Html_figure fig) = trace_x fig"

fun visible_totals :: "html \<Rightarrow> int list" where
  "visible_totals (Html_text t) = []"
| "visible_totals (Html_figure fig) = trace_y fig"

fun selector :: "html \<Rightarrow> button list" where
  "selector (Html_text t) = []"
| "selector (Html_figure fig) = concat (map buttons (updatemenus fig))"

section \<open>Connectors used to exercise the dashboard\<close>

text \<open>
  \<open>traced\<close> wraps a connector so that every call of \<^verbatim>\<open>get_sales_data\<close> is recorded, in
  order, with the product id it was given and what it raised or returned. It leaves the
  wrapped connector's answers and store as they are.
\<close>

definition traced ::
  "('s, 'e) connector \<Rightarrow> ('s \<times> (int \<times> ('e + sales_row list)) list, 'e) connector" where
  "traced get_sales_data pid sc =
     (case get_sales_data pid (fst sc) of
        (r, s') \<Rightarrow> (r, (s', snd sc @ [(pid, r)])))"

text \<open>A connector whose answer depends on the product id alone and that changes nothing.\<close>

definition stateless :: "(int \<Rightarrow> 'e + sales_row list) \<Rightarrow> ('s, 'e) connector" where
  "stateless rows_of pid s = (rows_of pid, s)"

text \<open>
  The exceptions a call of \<^verbatim>\<open>get_sales_data\<close> can end with. The repository defines no
  exception class of its own: \<open>DriverError\<close> stands for whatever the database driver raises
  (\<^verbatim>\<open>psycopg2.Error\<close>, or the \<^verbatim>\<open>AttributeError\<close> of a connector that was never connected);
  \<open>DataUnavailable\<close> is the condition the specification names, carrying a product id.
\<close>

datatype fetch_error = DataUnavailable int | DriverError string

text \<open>
  A store that grows between two queries: the \<open>n\<close>-th query of any product finds one row,
  of amount \<open>n\<close>, as when sales are being recorded while the page is built.
\<close>

definition growing_store :: "(nat, fetch_error) connector" where
  "growing_store pid n = (Inr [\<lparr> row_date = Date 2024 1 1, row_sales = int n \<rparr>], Suc n)"

text \<open>A connector whose connection is down: every query raises the driver's error.\<close>

definition connection_down :: "(unit, fetch_error) connector" where
  "connection_down pid s = (Inl (DriverError ''connection already closed''), s)"

text \<open>The two catalogues and the sales tables of the specification's examples.\<close>

definition product_A :: product where
  "product_A = \<lparr> product_id = 1, product_name = ''A'' \<rparr>"

definition product_B :: product where
  "product_B = \<lparr> product_id = 2, product_name = ''B'' \<rparr>"

definition example_sales :: "int \<Rightarrow> fetch_error + sales_row list" where
  "example_sales pid =
     (if pid = 1 then Inr [\<lparr> row_date = Date 2024 1 1, row_sales = 10 \<rparr>,
                           \<lparr> row_date = Date 2024 1 2, row_sales = 5 \<rparr>]
      else if pid = 2 then Inr [\<lparr> row_date = Date 2024 1 1, row_sales = - 3 \<rparr>]
      else Inr [])"

definition no_sales :: "int \<Rightarrow> fetch_error + sales_row list" where
  "no_sales pid = Inr []"

text \<open>
  The page built from \<open>[product_A, product_B]\<close> over \<open>example_sales\<close>, written out.
\<close>

definition example_page :: html where
  "example_page =
     Html_figure
       \<lparr> trace_x = [Date 2024 1 1, Date 2024 1 2],
         trace_y = [10, 15],
         trace_mode = ''lines+markers'',
         trace_name = ''Cumulative Sales'',
         layout_title = ''Cumulative Sales Over Time - A'',
         xaxis_title = ''Date'',
         yaxis_title = ''Cumulative Sales ($)'',
         updatemenus =
           [\<lparr> buttons =
                [\<lparr> label = ''A'', button_method = ''update'',
                    args_x = [[Date 2024 1 1, Date 2024 1 2]], args_y = [[10, 15]],
                    args_title = ''Cumulative Sales Over Time - A'' \<rparr>,
                 \<lparr> label = ''B'', button_method = ''update'',
                    args_x = [[Date 2024 1 1]], args_y = [[- 3]],
                    args_title = ''Cumulative Sales Over Time - B'' \<rparr>],
              direction = ''down'', showactive = True \<rparr>] \<rparr>"

text \<open>The page built from \<open>[product_A]\<close> when product 1 has no sales rows.\<close>

definition empty_series_page :: html where
  "empty_series_page =
     Html_figure
       \<lparr> trace_x = [],
         trace_y = [],
         trace_mode = ''lines+markers'',
         trace_name = ''Cumulative Sales'',
         layout_title = ''Cumulative Sales Over Time - A'',
         xaxis_title = ''Date'',
         yaxis_title = ''Cumulative Sales ($)'',
         updatemenus =
           [\<lparr> buttons =
                [\<lparr> label = ''A'', button_method = ''update'', args_x = [[]], args_y = [[]],
                    args_title = ''Cumulative Sales Over Time - A'' \<rparr>],
              direction = ''down'', showactive = True \<rparr>] \<rparr>"

text \<open>
  A catalogue of five products whose third has no readable sales table: the query for
  product 3 raises \<open>DataUnavailable 3\<close>, every other product has no rows.
\<close>

definition five_products :: "product list" where
  "five_products =
     [\<lparr> product_id = 1, product_name = ''P1'' \<rparr>,
      \<lparr> product_id = 2, product_name = ''P2'' \<rparr>,
      \<lparr> product_id = 3, product_name = ''P3'' \<rparr>,
      \<lparr> product_id = 4, product_name = ''P4'' \<rparr>,
      \<lparr> product_id = 5, product_name = ''P5'' \<rparr>]"

definition third_unavailable :: "int \<Rightarrow> fetch_error + sales_row list" where
  "third_unavailable pid = (if pid = 3 then Inl (DataUnavailable 3) else Inr [])"

section \<open>Properties of the running total\<close>

lemma running_total_loop_eq:
  "running_total_loop sales t acc = acc @ map (\<lambda>k. t + sum_list (take (Suc k) sales)) [0..<length sales]"
proof (induction sales arbitrary: t acc)
  case Nil
  show ?case by simp
next
  case (Cons sale sales)
  have "map (\<lambda>k. t + sum_list (take (Suc k) (sale # sales))) [0..<length (sale # sales)]
        = (t + sale) # map (\<lambda>k. (t + sale) + sum_list (take (Suc k) sales)) [0..<length sales]"
    by (simp add: upt_conv_Cons map_Suc_upt [symmetric] add.assoc del: upt_Suc)
  with Cons.IH [of "t + sale" "acc @ [t + sale]"] show ?case by simp
qed

lemma length_cumulative: "length (cumulative sales) = length sales"
  by (simp add: cumulative_def running_total_loop_eq)

lemma nth_cumulative:
  "i < length sales \<Longrightarrow> cumulative sales ! i = sum_list (take (Suc i) sales)"
  by (simp add: cumulative_def running_total_loop_eq del: upt_Suc)

lemma cumulative_snoc:
  "cumulative (sales @ [sale]) = cumulative sales @ [sum_list sales + sale]"
  by (simp add: cumulative_def running_total_loop_eq)

text \<open>
  C1. For every sequence of sales rows, the figure built by \<^verbatim>\<open>create_sales_plot\<close> carries
  the rows' dates unchanged, as many running totals as there are rows, and at every index
  \<open>i\<close> the sum of the amounts of the rows \<open>0..i\<close>.
\<close>

theorem create_sales_plot_prefix_sums:
  "length (trace_y (create_sales_plot p title)) = length p
   \<and> trace_x (create_sales_plot p title) = map row_date p
   \<and> (\<forall>i<length p. trace_y (create_sales_plot p title) ! i
                     = sum_list (map row_sales (take (Suc i) p)))"
  by (simp add: create_sales_plot_def length_cumulative nth_cumulative take_map)

theorem create_sales_plot_prefix_sums_witness:
  "(1::nat) < length [\<lparr> row_date = Date 2024 1 1, row_sales = 10 \<rparr>,
                      \<lparr> row_date = Date 2024 1 2, row_sales = - 4 \<rparr>,
                      \<lparr> row_date = Date 2024 1 3, row_sales = 7 \<rparr>]
   \<and> trace_y (create_sales_plot [\<lparr> row_date = Date 2024 1 1, row_sales = 10 \<rparr>,
                                  \<lparr> row_date = Date 2024 1 2, row_sales = - 4 \<rparr>,
                                  \<lparr> row_date = Date 2024 1 3, row_sales = 7 \<rparr>] ''A'') ! 1 = 6"
  using create_sales_plot_prefix_sums
          [of "[\<lparr> row_date = Date 2024 1 1, row_sales = 10 \<rparr>,
                \<lparr> row_date = Date 2024 1 2, row_sales = - 4 \<rparr>,
                \<lparr> row_date = Date 2024 1 3, row_sales = 7 \<rparr>]" "''A''"]
  by simp

text \<open>
  C7. The running total of \<^verbatim>\<open>create_sales_plot\<close> has a result for every input, whatever the
  signs of the amounts: no rows give no totals, one row gives that row's amount, and any
  further row, negative or not, adds one total and changes none of the earlier ones.
\<close>

theorem create_sales_plot_total:
  "trace_y (create_sales_plot [] title) = []
   \<and> trace_x (create_sales_plot [] title) = []
   \<and> trace_y (create_sales_plot [r] title) = [row_sales r]
   \<and> trace_y (create_sales_plot (p @ [r]) title)
       = trace_y (create_sales_plot p title) @ [sum_list (map row_sales p) + row_sales r]
   \<and> length (trace_y (create_sales_plot p title)) = length p"
  by (simp add: create_sales_plot_def cumulative_snoc length_cumulative)
     (simp add: cumulative_def)

text \<open>
  C10. When no row has a negative amount, the running totals of \<^verbatim>\<open>create_sales_plot\<close>
  never decrease from one index to the next.
\<close>

theorem create_sales_plot_monotone:
  assumes "\<forall>r\<in>set p. 0 \<le> row_sales r"
  shows "\<forall>i. Suc i < length p \<longrightarrow>
           trace_y (create_sales_plot p title) ! i \<le> trace_y (create_sales_plot p title) ! Suc i"
proof (intro allI impI)
  fix i assume i: "Suc i < length p"
  let ?s = "map row_sales p"
  have "take (Suc (Suc i)) ?s = take (Suc i) ?s @ [?s ! Suc i]"
    using i by (simp add: take_Suc_conv_app_nth)
  then have "sum_list (take (Suc (Suc i)) ?s) = sum_list (take (Suc i) ?s) + row_sales (p ! Suc i)"
    using i by simp
  moreover have "0 \<le> row_sales (p ! Suc i)" using assms i by simp
  ultimately show "trace_y (create_sales_plot p title) ! i \<le> trace_y (create_sales_plot p title) ! Suc i"
    using i by (simp add: create_sales_plot_def nth_cumulative)
qed

theorem create_sales_plot_monotone_witness:
  "list_all (\<lambda>r. 0 \<le> row_sales r)
            [\<lparr> row_date = Date 2024 1 1, row_sales = 10 \<rparr>,
             \<lparr> row_date = Date 2024 1 2, row_sales = 0 \<rparr>,
             \<lparr> row_date = Date 2024 1 3, row_sales = 5 \<rparr>]
   \<and> trace_y (create_sales_plot [\<lparr> row_date = Date 2024 1 1, row_sales = 10 \<rparr>,
                                  \<lparr> row_date = Date 2024 1 2, row_sales = 0 \<rparr>,
                                  \<lparr> row_date = Date 2024 1 3, row_sales = 5 \<rparr>] ''A'') ! 1
     \<le> trace_y (create_sales_plot [\<lparr> row_date = Date 2024 1 1, row_sales = 10 \<rparr>,
                                    \<lparr> row_date = Date 2024 1 2, row_sales = 0 \<rparr>,
                                    \<lparr> row_date = Date 2024 1 3, row_sales = 5 \<rparr>] ''A'') ! 2"
proof -
  let ?p = "[\<lparr> row_date = Date 2024 1 1, row_sales = 10 \<rparr>,
             \<lparr> row_date = Date 2024 1 2, row_sales = 0 \<rparr>,
             \<lparr> row_date = Date 2024 1 3, row_sales = 5 \<rparr>]"
  have h: "\<forall>r\<in>set ?p. 0 \<le> row_sales r" by simp
  have "Suc 1 < length ?p" by simp
  with create_sales_plot_monotone [OF h, of "''A''"]
  have "trace_y (create_sales_plot ?p ''A'') ! 1 \<le> trace_y (create_sales_plot ?p ''A'') ! Suc 1"
    by blast
  with h show ?thesis by (simp add: numeral_2_eq_2)
qed

section \<open>Properties of the dropdown loop and of the dashboard\<close>

lemma traced_simp:
  "traced g pid (s, log) = (fst (g pid s), (snd (g pid s), log @ [(pid, fst (g pid s))]))"
  by (simp add: traced_def split: prod.splits)

lemma dropdown_loop_buttons:
  "dropdown_loop g ps btns s = (Inr out, s') \<Longrightarrow>
     \<exists>rs. length rs = length ps \<and> out = btns @ map2 dropdown_button ps rs"
proof (induction ps arbitrary: btns s)
  case Nil
  then show ?case by simp
next
  case (Cons p ps)
  obtain r s1 where g: "g (product_id p) s = (r, s1)" by (cases "g (product_id p) s")
  with Cons.prems obtain rows where r: "r = Inr rows"
    by (cases r) auto
  with g Cons.prems have "dropdown_loop g ps (btns @ [dropdown_button p rows]) s1 = (Inr out, s')"
    by simp
  from Cons.IH [OF this] obtain rs where
    "length rs = length ps" "out = (btns @ [dropdown_button p rows]) @ map2 dropdown_button ps rs"
    by blast
  then have "length (rows # rs) = length (p # ps) \<and> out = btns @ map2 dropdown_button (p # ps) (rows # rs)"
    by simp
  then show ?case by blast
qed

lemma dropdown_loop_first:
  assumes "dropdown_loop g (p # ps) [] s = (Inr out, s')"
  shows "\<exists>rows. fst (g (product_id p) s) = Inr rows \<and> out \<noteq> [] \<and> out ! 0 = dropdown_button p rows"
proof -
  obtain r s1 where g: "g (product_id p) s = (r, s1)" by (cases "g (product_id p) s")
  with assms obtain rows where r: "r = Inr rows" by (cases r) auto
  with g assms have "dropdown_loop g ps [dropdown_button p rows] s1 = (Inr out, s')" by simp
  from dropdown_loop_buttons [OF this] obtain rs where "out = [dropdown_button p rows] @ map2 dropdown_button ps rs"
    by blast
  with g r show ?thesis by simp
qed

lemma dashboard_success:
  assumes "create_interactive_dashboard (p # ps) g s = (Inr page, s')"
  shows "\<exists>sales_data s1 btns.
           g (product_id p) s = (Inr sales_data, s1)
         \<and> dropdown_loop g (p # ps) [] s1 = (Inr btns, s')
         \<and> page = Html_figure ((create_sales_plot sales_data (product_name p))
                     \<lparr>updatemenus := [\<lparr> buttons = btns, direction = ''down'', showactive = True \<rparr>]\<rparr>)"
  using assms
  by (auto simp: create_interactive_dashboard_def Let_def simp del: dropdown_loop.simps
           split: prod.splits sum.splits)

lemma traced_loop:
  "dropdown_loop (traced g) ps btns (s, log) = (r, (s', log')) \<Longrightarrow>
     (\<exists>rs. length rs = length ps \<and> r = Inr (btns @ map2 dropdown_button ps rs)
           \<and> log' = log @ zip (map product_id ps) (map Inr rs))
   \<or> (\<exists>e pre p post rs. r = Inl e \<and> ps = pre @ p # post \<and> length rs = length pre
           \<and> log' = log @ zip (map product_id pre) (map Inr rs) @ [(product_id p, Inl e)])"
proof (induction ps arbitrary: btns s log)
  case Nil
  then show ?case by simp
next
  case (Cons p ps)
  obtain r0 s1 where g: "g (product_id p) s = (r0, s1)" by (cases "g (product_id p) s")
  show ?case
  proof (cases r0)
    case (Inl e)
    with g Cons.prems have "r = Inl e" "log' = log @ [(product_id p, Inl e)]"
      by (simp_all add: traced_simp)
    then have "r = Inl e \<and> p # ps = [] @ p # ps \<and> length ([]::sales_row list list) = length ([]::product list)
               \<and> log' = log @ zip (map product_id []) (map Inr ([]::sales_row list list)) @ [(product_id p, Inl e)]"
      by simp
    then show ?thesis by blast
  next
    case (Inr rows)
    with g Cons.prems have rec:
      "dropdown_loop (traced g) ps (btns @ [dropdown_button p rows]) (s1, log @ [(product_id p, Inr rows)])
       = (r, (s', log'))"
      by (simp add: traced_simp)
    from Cons.IH [OF rec] show ?thesis
    proof (elim disjE exE conjE)
      fix rs assume "length rs = length ps"
        "r = Inr ((btns @ [dropdown_button p rows]) @ map2 dropdown_button ps rs)"
        "log' = (log @ [(product_id p, Inr rows)]) @ zip (map product_id ps) (map Inr rs)"
      then have "length (rows # rs) = length (p # ps)
                 \<and> r = Inr (btns @ map2 dropdown_button (p # ps) (rows # rs))
                 \<and> log' = log @ zip (map product_id (p # ps)) (map Inr (rows # rs))"
        by simp
      then show ?thesis by blast
    next
      fix e pre q post rs assume "r = Inl e" "ps = pre @ q # post" "length rs = length pre"
        "log' = (log @ [(product_id p, Inr rows)]) @ zip (map product_id pre) (map Inr rs) @ [(product_id q, Inl e)]"
      then have "r = Inl e \<and> p # ps = (p # pre) @ q # post \<and> length (rows # rs) = length (p # pre)
                 \<and> log' = log @ zip (map product_id (p # pre)) (map Inr (rows # rs)) @ [(product_id q, Inl e)]"
        by simp
      then show ?thesis by blast
    qed
  qed
qed

lemma traced_dashboard:
  assumes "create_interactive_dashboard (p # ps) (traced g) (s, []) = (r, (s', calls))"
  shows "(\<exists>e. r = Inl e \<and> calls = [(product_id p, Inl e)])
       \<or> (\<exists>r0 rs. length rs = length (p # ps)
             \<and> calls = (product_id p, Inr r0) # zip (map product_id (p # ps)) (map Inr rs)
             \<and> r = Inr (Html_figure ((create_sales_plot r0 (product_name p))
                     \<lparr>updatemenus := [\<lparr> buttons = map2 dropdown_button (p # ps) rs,
                                         direction = ''down'', showactive = True \<rparr>]\<rparr>)))
       \<or> (\<exists>r0 e pre q post rs. r = Inl e \<and> p # ps = pre @ q # post \<and> length rs = length pre
             \<and> calls = (product_id p, Inr r0) # zip (map product_id pre) (map Inr rs)
                        @ [(product_id q, Inl e)])"
proof -
  obtain r0 s1 where g: "g (product_id p) s = (r0, s1)" by (cases "g (product_id p) s")
  show ?thesis
  proof (cases r0)
    case (Inl e)
    with g assms have "r = Inl e \<and> calls = [(product_id p, Inl e)]"
      by (auto simp: create_interactive_dashboard_def traced_simp)
    then show ?thesis by blast
  next
    case (Inr rows)
    obtain r1 s2 log2 where loop:
      "dropdown_loop (traced g) (p # ps) [] (s1, [(product_id p, Inr rows)]) = (r1, (s2, log2))"
      by (metis prod.exhaust)
    from assms g Inr loop have res:
      "(case r1 of Inl e \<Rightarrow> (Inl e, (s2, log2))
        | Inr btns \<Rightarrow> (Inr (Html_figure ((create_sales_plot rows (product_name p))
                     \<lparr>updatemenus := [\<lparr> buttons = btns, direction = ''down'', showactive = True \<rparr>]\<rparr>)),
                    (s2, log2))) = (r, (s', calls))"
      by (simp add: create_interactive_dashboard_def traced_simp Let_def del: dropdown_loop.simps
               split: sum.splits)
    from traced_loop [OF loop] show ?thesis
    proof (elim disjE exE conjE)
      fix rs assume "length rs = length (p # ps)" "r1 = Inr ([] @ map2 dropdown_button (p # ps) rs)"
        "log2 = [(product_id p, Inr rows)] @ zip (map product_id (p # ps)) (map Inr rs)"
      with res show ?thesis by auto
    next
      fix e pre q post rs assume "r1 = Inl e" "p # ps = pre @ q # post" "length rs = length pre"
        "log2 = [(product_id p, Inr rows)] @ zip (map product_id pre) (map Inr rs) @ [(product_id q, Inl e)]"
      with res have "r = Inl e \<and> p # ps = pre @ q # post \<and> length rs = length pre
             \<and> calls = (product_id p, Inr rows) # zip (map product_id pre) (map Inr rs)
                        @ [(product_id q, Inl e)]"
        by auto
      then show ?thesis by blast
    qed
  qed
qed

lemma zip_Inr_no_failure: "(pid, Inl e) \<notin> set (zip xs (map Inr rs))"
  by (auto dest: set_zip_rightD)

lemma traced_loop_agrees:
  "fst (dropdown_loop (traced g) ps btns (s, log)) = fst (dropdown_loop g ps btns s)
   \<and> fst (snd (dropdown_loop (traced g) ps btns (s, log))) = snd (dropdown_loop g ps btns s)"
  by (induction ps arbitrary: btns s log) (auto simp: traced_simp split: prod.splits sum.splits)

lemma traced_agrees:
  "fst (create_interactive_dashboard products (traced g) (s, log))
     = fst (create_interactive_dashboard products g s)
   \<and> fst (snd (create_interactive_dashboard products (traced g) (s, log)))
     = snd (create_interactive_dashboard products g s)"
proof (cases products)
  case Nil
  then show ?thesis by (simp add: create_interactive_dashboard_def)
next
  case (Cons p ps)
  obtain r0 s1 where g: "g (product_id p) s = (r0, s1)" by (cases "g (product_id p) s")
  show ?thesis
  proof (cases r0)
    case (Inl e)
    with g Cons show ?thesis by (simp add: create_interactive_dashboard_def traced_simp)
  next
    case (Inr rows)
    from traced_loop_agrees [of g "p # ps" "[]" s1 "log @ [(product_id p, Inr rows)]"]
    show ?thesis using g Inr Cons
      by (auto simp: create_interactive_dashboard_def traced_simp Let_def
               simp del: dropdown_loop.simps split: prod.splits sum.splits)
  qed
qed

section \<open>The dashboard\<close>

text \<open>
  C5. With an empty product list \<^verbatim>\<open>create_interactive_dashboard\<close> returns the paragraph
  \<^verbatim>\<open><p>No products available</p>\<close>, which shows no chart and has no dropdown; it does
  not fail, leaves the store as it was and makes no call of \<^verbatim>\<open>get_sales_data\<close>.
\<close>

theorem dashboard_empty_catalogue:
  "create_interactive_dashboard [] get_sales_data s
     = (Inr (Html_text ''<p>No products available</p>''), s)
   \<and> snd (snd (create_interactive_dashboard [] (traced get_sales_data) (s, []))) = []
   \<and> selector (Html_text ''<p>No products available</p>'') = []
   \<and> visible_dates (Html_text ''<p>No products available</p>'') = []
   \<and> visible_totals (Html_text ''<p>No products available</p>'') = []"
  by (simp add: create_interactive_dashboard_def)

text \<open>
  C6. Whenever \<^verbatim>\<open>create_interactive_dashboard\<close> returns a page, its dropdown has one entry
  per product and the \<open>k\<close>-th entry is labelled with the name of the \<open>k\<close>-th product.
\<close>

theorem dashboard_selector_labels:
  assumes "create_interactive_dashboard products g s = (Inr page, s')"
  shows "length (selector page) = length products
         \<and> (\<forall>k<length products. label (selector page ! k) = product_name (products ! k))"
proof (cases products)
  case Nil
  with assms show ?thesis by (auto simp: create_interactive_dashboard_def)
next
  case (Cons p ps)
  from dashboard_success [OF assms [unfolded Cons]] obtain sales_data s1 btns where
    loop: "dropdown_loop g (p # ps) [] s1 = (Inr btns, s')" and
    page: "page = Html_figure ((create_sales_plot sales_data (product_name p))
                     \<lparr>updatemenus := [\<lparr> buttons = btns, direction = ''down'', showactive = True \<rparr>]\<rparr>)"
    by blast
  from dropdown_loop_buttons [OF loop] obtain rs where
    rs: "length rs = length (p # ps)" "btns = map2 dropdown_button (p # ps) rs" by auto
  have sel: "selector page = btns" using page by simp
  have "length btns = length products" using rs Cons by simp
  moreover have "label (btns ! k) = product_name (products ! k)" if "k < length products" for k
    using that rs Cons by (simp add: dropdown_button_def del: zip_Cons_Cons)
  ultimately show ?thesis using sel by simp
qed

theorem dashboard_selector_labels_witness:
  "create_interactive_dashboard [product_A, product_B] (stateless example_sales) ()
     = (Inr example_page, ())
   \<and> length (selector example_page) = 2
   \<and> label (selector example_page ! 1) = ''B''"
proof -
  have run: "create_interactive_dashboard [product_A, product_B] (stateless example_sales) ()
               = (Inr example_page, ())"
    by (simp add: create_interactive_dashboard_def stateless_def example_sales_def product_A_def product_B_def create_sales_plot_def dropdown_button_def cumulative_def example_page_def)
  from dashboard_selector_labels [OF run] run show ?thesis
    by (simp add: product_B_def)
qed

text \<open>
  C2 (as amended). Whenever \<^verbatim>\<open>create_interactive_dashboard\<close> returns a page for a non-empty
  product list, and the two queries it makes for the first product (the one of line 73 and
  the first one of the loop, line 78) return the same rows, the first dropdown entry
  carries exactly the dates and running totals of the chart shown at load time.
\<close>

theorem dashboard_first_entry_matches_visible:
  assumes run: "create_interactive_dashboard products g s = (Inr page, s')"
      and ne: "products \<noteq> []"
      and same: "fst (g (product_id (hd products)) (snd (g (product_id (hd products)) s)))
                 = fst (g (product_id (hd products)) s)"
  shows "selector page \<noteq> []
         \<and> args_x (selector page ! 0) = [visible_dates page]
         \<and> args_y (selector page ! 0) = [visible_totals page]"
proof -
  from ne obtain p ps where Cons: "products = p # ps" by (cases products) auto
  from dashboard_success [OF run [unfolded Cons]] obtain sales_data s1 btns where
    g: "g (product_id p) s = (Inr sales_data, s1)" and
    loop: "dropdown_loop g (p # ps) [] s1 = (Inr btns, s')" and
    page: "page = Html_figure ((create_sales_plot sales_data (product_name p))
                     \<lparr>updatemenus := [\<lparr> buttons = btns, direction = ''down'', showactive = True \<rparr>]\<rparr>)"
    by blast
  from dropdown_loop_first [OF loop] obtain rows where
    rows: "fst (g (product_id p) s1) = Inr rows" "btns \<noteq> []" "btns ! 0 = dropdown_button p rows"
    by blast
  from same g rows(1) Cons have "rows = sales_data" by simp
  with rows page show ?thesis
    by (simp add: dropdown_button_def create_sales_plot_def)
qed

theorem dashboard_first_entry_matches_visible_witness:
  "create_interactive_dashboard [product_A, product_B] (stateless example_sales) ()
     = (Inr example_page, ())
   \<and> [product_A, product_B] \<noteq> []
   \<and> fst (stateless example_sales (product_id (hd [product_A, product_B]))
            (snd (stateless example_sales (product_id (hd [product_A, product_B])) ())))
     = fst (stateless example_sales (product_id (hd [product_A, product_B])) ())
   \<and> args_x (selector example_page ! 0) = [visible_dates example_page]
   \<and> args_y (selector example_page ! 0) = [visible_totals example_page]"
proof -
  have run: "create_interactive_dashboard [product_A, product_B] (stateless example_sales) ()
               = (Inr example_page, ())"
    by (simp add: create_interactive_dashboard_def stateless_def example_sales_def product_A_def product_B_def create_sales_plot_def dropdown_button_def cumulative_def example_page_def)
  have ne: "[product_A, product_B] \<noteq> []" by simp
  have same: "fst (stateless example_sales (product_id (hd [product_A, product_B]))
                    (snd (stateless example_sales (product_id (hd [product_A, product_B])) ())))
              = fst (stateless example_sales (product_id (hd [product_A, product_B])) ())"
    by (simp add: stateless_def)
  from dashboard_first_entry_matches_visible [OF run ne same] run same show ?thesis
    by simp
qed

text \<open>
  C2 as stated fails: over a store that changes between the two queries for the first
  product, the page is built, the chart shows the total \<open>0\<close> and the first dropdown entry
  carries the total \<open>1\<close>.
\<close>

theorem dashboard_drift_counterexample:
  "\<not> isl (fst (create_interactive_dashboard [product_A] growing_store 0))
   \<and> visible_totals (projr (fst (create_interactive_dashboard [product_A] growing_store 0))) = [0]
   \<and> args_y (selector (projr (fst (create_interactive_dashboard [product_A] growing_store 0))) ! 0)
       = [[1]]
   \<and> args_y (selector (projr (fst (create_interactive_dashboard [product_A] growing_store 0))) ! 0)
       \<noteq> [visible_totals (projr (fst (create_interactive_dashboard [product_A] growing_store 0)))]"
  by (simp add: create_interactive_dashboard_def growing_store_def product_A_def
                create_sales_plot_def dropdown_button_def cumulative_def)

text \<open>
  C3 (as amended). A call of \<^verbatim>\<open>create_interactive_dashboard\<close> that returns a page for a
  non-empty product list has queried \<^verbatim>\<open>get_sales_data\<close> once for the first product and
  then once for every product in list order, the first product included: one query more
  than there are products. The chart shown at load time holds the running totals of the
  first query's rows, and the \<open>k\<close>-th dropdown entry those of the rows of query \<open>k + 1\<close>.
\<close>

theorem dashboard_fetch_calls:
  assumes run: "create_interactive_dashboard products (traced g) (s, []) = (Inr page, (s', calls))"
      and ne: "products \<noteq> []"
  shows "map fst calls = product_id (hd products) # map product_id products
       \<and> visible_totals page = cumulative (map row_sales (projr (snd (calls ! 0))))
       \<and> (\<forall>k<length products.
            args_y (selector page ! k) = [cumulative (map row_sales (projr (snd (calls ! Suc k))))])"
proof -
  from ne obtain p ps where Cons: "products = p # ps" by (cases products) auto
  from traced_dashboard [OF run [unfolded Cons]] obtain r0 rs where
    len: "length rs = length (p # ps)" and
    calls: "calls = (product_id p, Inr r0) # zip (map product_id (p # ps)) (map Inr rs)" and
    page: "page = Html_figure ((create_sales_plot r0 (product_name p))
                     \<lparr>updatemenus := [\<lparr> buttons = map2 dropdown_button (p # ps) rs,
                                         direction = ''down'', showactive = True \<rparr>]\<rparr>)"
    by auto
  have "map fst calls = product_id (hd products) # map product_id products"
    using calls len Cons by (simp del: zip_Cons_Cons add: map_fst_zip)
  moreover have "visible_totals page = cumulative (map row_sales (projr (snd (calls ! 0))))"
    using calls page by (simp add: create_sales_plot_def)
  moreover have "args_y (selector page ! k) = [cumulative (map row_sales (projr (snd (calls ! Suc k))))]"
    if "k < length products" for k
  proof -
    have k: "k < length (p # ps)" "k < length rs" using that len Cons by simp_all
    have "calls ! Suc k = (product_id ((p # ps) ! k), Inr (rs ! k))"
      using k calls by (simp del: zip_Cons_Cons list.map)
    moreover have "selector page ! k = dropdown_button ((p # ps) ! k) (rs ! k)"
      using k page by (simp del: zip_Cons_Cons)
    ultimately show ?thesis by (simp add: dropdown_button_def)
  qed
  ultimately show ?thesis by blast
qed

theorem dashboard_fetch_calls_witness:
  "create_interactive_dashboard [product_A, product_B] (traced (stateless example_sales)) ((), [])
     = (Inr example_page,
        ((), [(1, example_sales 1), (1, example_sales 1), (2, example_sales 2)]))
   \<and> [product_A, product_B] \<noteq> []
   \<and> map fst [(1, example_sales 1), (1, example_sales 1), (2, example_sales 2)]
     = product_id (hd [product_A, product_B]) # map product_id [product_A, product_B]"
proof -
  have run: "create_interactive_dashboard [product_A, product_B]
               (traced (stateless example_sales)) ((), [])
             = (Inr example_page,
                ((), [(1, example_sales 1), (1, example_sales 1), (2, example_sales 2)]))"
    by (simp add: create_interactive_dashboard_def stateless_def example_sales_def product_A_def product_B_def create_sales_plot_def dropdown_button_def cumulative_def example_page_def traced_def)
  have ne: "[product_A, product_B] \<noteq> []" by simp
  from dashboard_fetch_calls [OF run ne] run show ?thesis
    by simp
qed

text \<open>
  C3 as stated fails: for the one-product list \<open>[product_A]\<close> the dashboard queries
  product 1 twice.
\<close>

theorem dashboard_fetch_twice_counterexample:
  "count_list (map fst (snd (snd (create_interactive_dashboard [product_A]
                                    (traced (stateless no_sales)) ((), [])))))
              (product_id product_A) = 2
   \<and> count_list (map fst (snd (snd (create_interactive_dashboard [product_A]
                                      (traced (stateless no_sales)) ((), [])))))
                (product_id product_A) \<noteq> 1"
  by (simp add: create_interactive_dashboard_def traced_def stateless_def no_sales_def
                product_A_def create_sales_plot_def dropdown_button_def cumulative_def)

text \<open>
  C4 (as amended). If any query made by \<^verbatim>\<open>create_interactive_dashboard\<close> raises, that query
  is the last one made, it was for a product of the list, and the dashboard returns no page
  but raises exactly what the query raised.
\<close>

theorem dashboard_propagates_fetch_error:
  assumes run: "create_interactive_dashboard products (traced g) (s, []) = (r, (s', calls))"
      and failed: "(pid, Inl e) \<in> set calls"
  shows "r = Inl e \<and> last calls = (pid, Inl e) \<and> pid \<in> product_id ` set products"
proof (cases products)
  case Nil
  with run failed show ?thesis by (simp add: create_interactive_dashboard_def)
next
  case (Cons p ps)
  from traced_dashboard [OF run [unfolded Cons]] show ?thesis
  proof (elim disjE exE conjE)
    fix e' assume "r = Inl e'" "calls = [(product_id p, Inl e')]"
    with failed Cons show ?thesis by simp
  next
    fix r0 rs assume "calls = (product_id p, Inr r0) # zip (map product_id (p # ps)) (map Inr rs)"
    with failed have False using zip_Inr_no_failure [of pid e "map product_id (p # ps)" rs] by simp
    then show ?thesis ..
  next
    fix r0 e' pre q post rs
    assume r: "r = Inl e'" and split: "p # ps = pre @ q # post"
      and calls: "calls = (product_id p, Inr r0) # zip (map product_id pre) (map Inr rs)
                        @ [(product_id q, Inl e')]"
    from failed calls zip_Inr_no_failure [of pid e "map product_id pre" rs]
    have "pid = product_id q" "e = e'" by auto
    moreover have "q \<in> set products" using split Cons by (metis in_set_conv_decomp)
    ultimately show ?thesis using r calls by simp
  qed
qed

theorem dashboard_propagates_fetch_error_witness:
  "create_interactive_dashboard five_products (traced (stateless third_unavailable)) ((), [])
     = (Inl (DataUnavailable 3),
        ((), [(1, Inr []), (1, Inr []), (2, Inr []), (3, Inl (DataUnavailable 3))]))
   \<and> (3, Inl (DataUnavailable 3))
       \<in> set [(1, Inr []), (1, Inr []), (2, Inr []), (3, Inl (DataUnavailable 3))]
   \<and> 3 \<in> product_id ` set five_products"
proof -
  have run: "create_interactive_dashboard five_products
               (traced (stateless third_unavailable)) ((), [])
             = (Inl (DataUnavailable 3),
                ((), [(1, Inr []), (1, Inr []), (2, Inr []), (3, Inl (DataUnavailable 3))]))"
    by (simp add: create_interactive_dashboard_def traced_def stateless_def
                  third_unavailable_def five_products_def create_sales_plot_def
                  dropdown_button_def cumulative_def)
  have failed: "(3, Inl (DataUnavailable 3))
                  \<in> set [(1, Inr []), (1, Inr []), (2, Inr []), (3, Inl (DataUnavailable 3))]"
    by simp
  from dashboard_propagates_fetch_error [OF run failed] run failed show ?thesis
    by simp
qed

text \<open>
  C4 as stated fails: when the query for product 1 raises the driver's own error, the
  dashboard raises that error, not a \<open>DataUnavailable\<close> condition naming product 1.
\<close>

theorem dashboard_error_not_wrapped_counterexample:
  "isl (fst (connection_down (product_id product_A) ()))
   \<and> fst (create_interactive_dashboard [product_A] connection_down ())
       = Inl (DriverError ''connection already closed'')
   \<and> fst (create_interactive_dashboard [product_A] connection_down ())
       \<noteq> Inl (DataUnavailable (product_id product_A))"
  by (simp add: create_interactive_dashboard_def connection_down_def product_A_def)

text \<open>
  C8. For the products \<open>A\<close> (id 1) and \<open>B\<close> (id 2), with the rows (2024-01-01, 10) and
  (2024-01-02, 5) for product 1 and the row (2024-01-01, -3) for product 2, the dashboard
  shows the totals 10 and 15 at the two dates, its entry \<open>A\<close> carries the same dates and
  totals, and its entry \<open>B\<close> carries the total -3 at 2024-01-01.
\<close>

theorem dashboard_example_two_products:
  "fst (create_interactive_dashboard [product_A, product_B] (stateless example_sales) ())
     = Inr example_page
   \<and> visible_dates example_page = [Date 2024 1 1, Date 2024 1 2]
   \<and> visible_totals example_page = [10, 15]
   \<and> map (\<lambda>b. (label b, args_x b, args_y b)) (selector example_page)
       = [(''A'', [[Date 2024 1 1, Date 2024 1 2]], [[10, 15]]),
          (''B'', [[Date 2024 1 1]], [[- 3]])]"
  by (simp add: create_interactive_dashboard_def stateless_def example_sales_def product_A_def product_B_def create_sales_plot_def dropdown_button_def cumulative_def example_page_def)

text \<open>
  C9. For the single product \<open>A\<close> (id 1) without sales rows the dashboard is built: the
  chart is empty and the only dropdown entry, \<open>A\<close>, carries an empty series.
\<close>

theorem dashboard_example_no_sales:
  "fst (create_interactive_dashboard [product_A] (stateless no_sales) ()) = Inr empty_series_page
   \<and> visible_dates empty_series_page = []
   \<and> visible_totals empty_series_page = []
   \<and> map (\<lambda>b. (label b, args_x b, args_y b)) (selector empty_series_page)
       = [(''A'', [[]], [[]])]"
  by (simp add: create_interactive_dashboard_def stateless_def no_sales_def product_A_def
                create_sales_plot_def dropdown_button_def cumulative_def empty_series_page_def)

end
